theory Spec2Isabelle
  imports Main
begin

section \<open>JavaScript values\<close>

text \<open>
  The handlers of \<^verbatim>\<open>src/index.js\<close> are annotated with Flow types, which are erased
  before the code runs: at run time \<^verbatim>\<open>eventOrAnchorEl\<close> is any JavaScript value, and the
  code itself tests it for falsiness. The values are therefore modelled as they are at
  run time. Numbers are the integers and \<^verbatim>\<open>NaN\<close> (the code only tests a number for
  truthiness). An object is a reference together with its properties as seen by a
  property read; a DOM element and an event are both objects.
\<close>

datatype jsval =
    JUndefined
  | JNull
  | JBool bool
  | JNum int
  | JNaN
  | JStr string
  | JObj nat "(string \<times> jsval) list"

datatype error = TypeError

text \<open>\<^verbatim>\<open>ToBoolean\<close>: what \<^verbatim>\<open>if (x)\<close>, \<^verbatim>\<open>!x\<close>, \<^verbatim>\<open>x && y\<close>, \<^verbatim>\<open>x ? y : z\<close>
  and \<^verbatim>\<open>Boolean(x)\<close> test.\<close>

fun truthy :: "jsval \<Rightarrow> bool" where
  "truthy JUndefined = False"
| "truthy JNull = False"
| "truthy (JBool b) = b"
| "truthy (JNum n) = (n \<noteq> 0)"
| "truthy JNaN = False"
| "truthy (JStr s) = (s \<noteq> [])"
| "truthy (JObj r ps) = True"

fun nullish :: "jsval \<Rightarrow> bool" where
  "nullish JUndefined = True"
| "nullish JNull = True"
| "nullish v = False"

text \<open>The read \<^verbatim>\<open>x.target\<close>: a TypeError on \<^verbatim>\<open>undefined\<close> and \<^verbatim>\<open>null\<close>,
  \<^verbatim>\<open>undefined\<close> on a boolean, a number or a string (their prototypes have no such
  property), and on an object the property's value, \<^verbatim>\<open>undefined\<close> when it has none.\<close>

fun get_target :: "jsval \<Rightarrow> error + jsval" where
  "get_target JUndefined = Inl TypeError"
| "get_target JNull = Inl TypeError"
| "get_target (JObj r ps) =
     (case map_of ps ''target'' of None \<Rightarrow> Inr JUndefined | Some t \<Rightarrow> Inr t)"
| "get_target v = Inr JUndefined"

text \<open>\<^verbatim>\<open>'target' in x\<close> for an object; a primitive value exposes no such property.\<close>

fun exposes_target :: "jsval \<Rightarrow> bool" where
  "exposes_target (JObj r ps) = (''target'' \<in> set (map fst ps))"
| "exposes_target v = False"

text \<open>The operators, on operands whose evaluation may throw. The right operand of
  \<^verbatim>\<open>&&\<close> and the branches of \<^verbatim>\<open>?:\<close> are looked at only when the source
  evaluates them.\<close>

definition js_not :: "error + jsval \<Rightarrow> error + jsval" where
  "js_not a = (case a of Inl e \<Rightarrow> Inl e | Inr v \<Rightarrow> Inr (JBool (\<not> truthy v)))"

definition js_and :: "error + jsval \<Rightarrow> error + jsval \<Rightarrow> error + jsval" where
  "js_and a b = (case a of Inl e \<Rightarrow> Inl e | Inr v \<Rightarrow> if truthy v then b else Inr v)"

definition js_cond :: "error + jsval \<Rightarrow> error + jsval \<Rightarrow> error + jsval \<Rightarrow> error + jsval" where
  "js_cond c a b = (case c of Inl e \<Rightarrow> Inl e | Inr v \<Rightarrow> if truthy v then a else b)"

section \<open>The state controller\<close>

text \<open>
  \<^verbatim>\<open>type State = { anchorEl: ?HTMLElement }\<close> is the component's only state. The
  module-level \<^verbatim>\<open>eventOrAnchorElWarned\<close> is shared by the whole process, and
  \<^verbatim>\<open>console.error\<close> appends to the console. \<^verbatim>\<open>setState\<close> is applied at once: every
  handler runs to completion before the next one starts.
\<close>

record State =
  anchorEl :: jsval

record world =
  state :: State
  eventOrAnchorElWarned :: bool
  console :: "string list"

type_synonym handler = "world \<Rightarrow> error + world"

definition initial :: world where
  "initial = \<lparr>state = \<lparr>anchorEl = JNull\<rparr>, eventOrAnchorElWarned = False, console = []\<rparr>"

definition setState :: "State \<Rightarrow> world \<Rightarrow> world" where
  "setState s w = w\<lparr>state := s\<rparr>"

definition console_error :: "string \<Rightarrow> world \<Rightarrow> world" where
  "console_error msg w = w\<lparr>console := console w @ [msg]\<rparr>"

text \<open>\<^verbatim>\<open>handleClose = () => this.setState({ anchorEl: null })\<close>\<close>

definition handleClose :: handler where
  "handleClose w = Inr (setState \<lparr>anchorEl = JNull\<rparr> w)"

text \<open>
  \<^verbatim>\<open>handleOpen\<close>: the warning condition is evaluated first and may throw; then the
  flag is set and the message logged when it is true; then the anchor is resolved and
  stored.
\<close>

definition handleOpen :: "jsval \<Rightarrow> handler" where
  "handleOpen eventOrAnchorEl w =
     (case js_and (js_and (js_not (Inr (JBool (eventOrAnchorElWarned w))))
                          (js_not (Inr eventOrAnchorEl)))
                  (js_not (get_target eventOrAnchorEl)) of
        Inl e \<Rightarrow> Inl e
      | Inr c \<Rightarrow>
          (let w1 = (if truthy c
                     then console_error ''eventOrAnchorEl should be defined''
                            (w\<lparr>eventOrAnchorElWarned := True\<rparr>)
                     else w)
           in case js_cond (js_and (Inr eventOrAnchorEl) (get_target eventOrAnchorEl))
                           (get_target eventOrAnchorEl)
                           (Inr eventOrAnchorEl) of
                Inl e \<Rightarrow> Inl e
              | Inr a \<Rightarrow> Inr (setState \<lparr>anchorEl = a\<rparr> w1)))"

definition handleToggle :: "jsval \<Rightarrow> handler" where
  "handleToggle eventOrAnchorEl w =
     (if truthy (anchorEl (state w)) then handleClose w else handleOpen eventOrAnchorEl w)"

definition handleSetOpen :: "jsval \<Rightarrow> jsval \<Rightarrow> handler" where
  "handleSetOpen opn eventOrAnchorEl w =
     (if truthy opn then handleOpen eventOrAnchorEl w else handleClose w)"

section \<open>Injected props and the binding functions\<close>

text \<open>\<^verbatim>\<open>type Variant = 'popover' | 'popper'\<close>, the two values that \<^verbatim>\<open>propTypes\<close>
  accepts.\<close>

datatype Variant = Popover | Popper

text \<open>
  \<^verbatim>\<open>InjectedProps\<close>: the handlers are functions on the world; \<^verbatim>\<open>popupId\<close> is an
  optional string, so a JavaScript value.
\<close>

record InjectedProps =
  "open" :: "jsval \<Rightarrow> handler"
  close :: handler
  toggle :: "jsval \<Rightarrow> handler"
  setOpen :: "jsval \<Rightarrow> jsval \<Rightarrow> handler"
  isOpen :: bool
  anchorEl :: jsval
  popupId :: jsval
  variant :: Variant

text \<open>
  A binding function returns an object literal: its keys in the order written, each
  with a value or a handler.
\<close>

datatype propval =
    Value jsval
  | Callback "jsval \<Rightarrow> handler"
  | Thunk handler

type_synonym props_object = "(string \<times> propval) list"

definition bindTrigger :: "InjectedProps \<Rightarrow> props_object" where
  "bindTrigger p =
     [(if variant p = Popover then ''aria-owns'' else ''aria-describedby'',
         Value (if isOpen p then popupId p else JNull)),
      (''aria-haspopup'', Value (JBool True)),
      (''onClick'', Callback (open p))]"

definition bindToggle :: "InjectedProps \<Rightarrow> props_object" where
  "bindToggle p =
     [(if variant p = Popover then ''aria-owns'' else ''aria-describedby'',
         Value (if isOpen p then popupId p else JNull)),
      (''aria-haspopup'', Value (JBool True)),
      (''onClick'', Callback (toggle p))]"

definition bindHover :: "InjectedProps \<Rightarrow> props_object" where
  "bindHover p =
     [(if variant p = Popover then ''aria-owns'' else ''aria-describedby'',
         Value (if isOpen p then popupId p else JNull)),
      (''aria-haspopup'', Value (JBool True)),
      (''onMouseEnter'', Callback (open p)),
      (''onMouseLeave'', Thunk (close p))]"

definition bindPopover :: "InjectedProps \<Rightarrow> props_object" where
  "bindPopover p =
     [(''id'', Value (popupId p)),
      (''anchorEl'', Value (anchorEl p)),
      (''open'', Value (JBool (isOpen p))),
      (''onClose'', Thunk (close p))]"

text \<open>\<^verbatim>\<open>export const bindMenu = bindPopover\<close>\<close>

definition bindMenu :: "InjectedProps \<Rightarrow> props_object" where
  "bindMenu = bindPopover"

definition bindPopper :: "InjectedProps \<Rightarrow> props_object" where
  "bindPopper p =
     [(''id'', Value (popupId p)),
      (''anchorEl'', Value (anchorEl p)),
      (''open'', Value (JBool (isOpen p)))]"

section \<open>Rendering\<close>

text \<open>\<^verbatim>\<open>Props\<close>: \<^verbatim>\<open>children\<close> is the render function, with any result type.\<close>

record 'r Props =
  popupId :: jsval
  children :: "InjectedProps \<Rightarrow> 'r"
  variant :: Variant

definition render :: "'r Props \<Rightarrow> world \<Rightarrow> 'r" where
  "render props w =
     (let anchorEl' = State.anchorEl (state w);
          isOpen' = truthy anchorEl'
      in children props
           \<lparr>open = handleOpen,
            close = handleClose,
            toggle = handleToggle,
            setOpen = handleSetOpen,
            isOpen = isOpen',
            anchorEl = anchorEl',
            InjectedProps.popupId = Props.popupId props,
            InjectedProps.variant = Props.variant props\<rparr>)"

section \<open>Sequences of controller operations\<close>

text \<open>
  A call of one of the four injected operations. An exception leaves the handler and
  reaches the caller; the component and the module's flag stay as they were before the
  call, and the next call finds them so.
\<close>

datatype operation =
    Open jsval
  | Close
  | Toggle jsval
  | SetOpen jsval jsval

fun perform :: "operation \<Rightarrow> handler" where
  "perform (Open a) w = handleOpen a w"
| "perform Close w = handleClose w"
| "perform (Toggle a) w = handleToggle a w"
| "perform (SetOpen f a) w = handleSetOpen f a w"

fun run :: "operation list \<Rightarrow> world \<Rightarrow> world" where
  "run [] w = w"
| "run (c # cs) w = (case perform c w of Inl e \<Rightarrow> run cs w | Inr w' \<Rightarrow> run cs w')"

section \<open>The anchor that \<open>handleOpen\<close> stores\<close>

text \<open>
  The value of \<^verbatim>\<open>eventOrAnchorEl && eventOrAnchorEl.target ? eventOrAnchorEl.target :
  eventOrAnchorEl\<close> as a total function: the read of \<^verbatim>\<open>target\<close> is reached only for a
  truthy value, where it does not throw (lemma \<open>conditional_resolves\<close> below).
\<close>

definition resolved_anchor :: "jsval \<Rightarrow> jsval" where
  "resolved_anchor a =
     (case get_target a of
        Inl e \<Rightarrow> a
      | Inr t \<Rightarrow> if truthy a \<and> truthy t then t else a)"

section \<open>What \<open>handleOpen\<close> does, case by case\<close>

lemma conditional_resolves:
  "js_cond (js_and (Inr a) (get_target a)) (get_target a) (Inr a) = Inr (resolved_anchor a)"
  by (cases a) (auto simp: js_cond_def js_and_def resolved_anchor_def split: option.splits)

lemma truthy_resolved_anchor: "truthy (resolved_anchor a) = truthy a"
  by (cases a) (auto simp: resolved_anchor_def split: option.splits)

lemma handleOpen_nullish_unwarned:
  "\<not> eventOrAnchorElWarned w \<Longrightarrow> nullish a \<Longrightarrow> handleOpen a w = Inl TypeError"
  by (cases a) (simp_all add: handleOpen_def js_and_def js_not_def)

lemma handleOpen_falsy_unwarned:
  "\<not> eventOrAnchorElWarned w \<Longrightarrow> \<not> truthy a \<Longrightarrow> \<not> nullish a \<Longrightarrow>
   handleOpen a w =
     Inr (setState \<lparr>State.anchorEl = a\<rparr>
            (console_error ''eventOrAnchorEl should be defined''
               (w\<lparr>eventOrAnchorElWarned := True\<rparr>)))"
  by (cases a) (simp_all add: handleOpen_def js_and_def js_not_def js_cond_def)

lemma handleOpen_silent:
  "eventOrAnchorElWarned w \<or> truthy a \<Longrightarrow>
   handleOpen a w = Inr (setState \<lparr>State.anchorEl = resolved_anchor a\<rparr> w)"
  by (cases a) (auto simp: handleOpen_def js_and_def js_not_def js_cond_def resolved_anchor_def
      split: option.splits)

lemma handleOpen_returns:
  "eventOrAnchorElWarned w \<or> \<not> nullish a \<Longrightarrow>
   \<exists>w'. handleOpen a w = Inr w' \<and> State.anchorEl (state w') = resolved_anchor a"
  by (cases "truthy a"; cases "eventOrAnchorElWarned w")
     (auto simp: handleOpen_silent handleOpen_falsy_unwarned setState_def console_error_def
        resolved_anchor_def split: sum.splits)

section \<open>The diagnostic is logged at most once\<close>

text \<open>
  Once the flag is set no call logs again, and a run that starts with the flag unset
  logs the message at most once.
\<close>

lemma perform_flag_mono:
  "perform c w = Inr w' \<Longrightarrow> eventOrAnchorElWarned w \<Longrightarrow>
   eventOrAnchorElWarned w' \<and> console w' = console w"
  by (cases c)
     (auto simp: handleToggle_def handleSetOpen_def handleClose_def handleOpen_silent setState_def
        split: if_splits)

lemma perform_console:
  "perform c w = Inr w' \<Longrightarrow> \<not> eventOrAnchorElWarned w \<Longrightarrow>
   (\<not> eventOrAnchorElWarned w' \<and> console w' = console w) \<or>
   (eventOrAnchorElWarned w' \<and> console w' = console w @ [''eventOrAnchorEl should be defined''])"
proof -
  assume p: "perform c w = Inr w'" and u: "\<not> eventOrAnchorElWarned w"
  have o: "handleOpen a w = Inr w' \<Longrightarrow> ?thesis" for a
  proof -
    assume h: "handleOpen a w = Inr w'"
    show ?thesis
    proof (cases "truthy a")
      case True
      with h u show ?thesis by (auto simp: handleOpen_silent setState_def)
    next
      case False
      with h u have "\<not> nullish a" by (auto simp: handleOpen_nullish_unwarned)
      with h u False show ?thesis
        by (auto simp: handleOpen_falsy_unwarned setState_def console_error_def)
    qed
  qed
  from p u show ?thesis
    by (cases c)
       (auto simp: handleToggle_def handleSetOpen_def handleClose_def setState_def
          split: if_splits dest: o)
qed

lemma run_warned_silent:
  "eventOrAnchorElWarned w \<Longrightarrow>
   eventOrAnchorElWarned (run ops w) \<and> console (run ops w) = console w"
proof (induction ops arbitrary: w)
  case Nil
  then show ?case by simp
next
  case (Cons c cs)
  show ?case
  proof (cases "perform c w")
    case (Inl e)
    with Cons show ?thesis by simp
  next
    case (Inr w')
    from Inr Cons.prems have "eventOrAnchorElWarned w' \<and> console w' = console w"
      by (rule perform_flag_mono)
    with Cons.IH [of w'] Inr show ?thesis by simp
  qed
qed

lemma run_warns_at_most_once:
  "\<not> eventOrAnchorElWarned w \<Longrightarrow>
   (\<not> eventOrAnchorElWarned (run ops w) \<and> console (run ops w) = console w) \<or>
   (eventOrAnchorElWarned (run ops w) \<and>
    console (run ops w) = console w @ [''eventOrAnchorEl should be defined''])"
proof (induction ops arbitrary: w)
  case Nil
  then show ?case by simp
next
  case (Cons c cs)
  show ?case
  proof (cases "perform c w")
    case (Inl e)
    with Cons show ?thesis by simp
  next
    case (Inr w')
    from perform_console [OF Inr Cons.prems] show ?thesis
    proof
      assume "\<not> eventOrAnchorElWarned w' \<and> console w' = console w"
      with Cons.IH [of w'] Inr show ?thesis by simp
    next
      assume a: "eventOrAnchorElWarned w' \<and> console w' = console w @ [''eventOrAnchorEl should be defined'']"
      with run_warned_silent [of w' cs] Inr show ?thesis by simp
    qed
  qed
qed

section \<open>The derived value \<open>isOpen\<close>\<close>

text \<open>
  C1. After every sequence of \<open>open\<close>, \<open>close\<close>, \<open>toggle\<close> and \<open>setOpen\<close> calls from the
  initial state, the \<open>isOpen\<close> that \<open>render\<close> passes to the render function is true
  exactly when \<open>state.anchorEl\<close> is truthy; the props, the warning flag and the console do
  not change it.
\<close>

theorem isOpen_iff_anchorEl_truthy:
  "isOpen (render \<lparr>popupId = pid, children = (\<lambda>ip. ip), variant = v\<rparr> (run ops initial))
     = truthy (State.anchorEl (state (run ops initial)))
   \<and> isOpen (render \<lparr>popupId = pid', children = (\<lambda>ip. ip), variant = v'\<rparr>
               ((run ops initial)\<lparr>eventOrAnchorElWarned := f, console := c\<rparr>))
     = isOpen (render \<lparr>popupId = pid, children = (\<lambda>ip. ip), variant = v\<rparr> (run ops initial))"
  by (simp add: render_def Let_def)

section \<open>Opening\<close>

text \<open>
  C2. The claim: an \<open>open\<close> with a falsy anchor source logs the diagnostic the first time
  and proceeds with the state update instead of throwing. The code at \<open>undefined\<close>, in a
  process that has not warned yet: \<open>open\<close>, \<open>toggle\<close> from closed and \<open>setOpen(true)\<close> all
  throw a TypeError, and nothing is logged or stored.
\<close>

theorem open_undefined_unwarned_throws:
  "handleOpen JUndefined initial = Inl TypeError
   \<and> handleToggle JUndefined initial = Inl TypeError
   \<and> handleSetOpen (JBool True) JUndefined initial = Inl TypeError
   \<and> run [Open JUndefined] initial = initial"
  by (simp add: handleToggle_def handleSetOpen_def handleOpen_nullish_unwarned initial_def)

text \<open>
  C3, as stated: whenever the anchor source exposes a \<open>target\<close> property, that target
  becomes the anchor. It fails for an event whose \<open>target\<close> is \<open>null\<close>: the event object
  itself is stored.
\<close>

theorem open_falsy_target_counterexample:
  "exposes_target (JObj 1 [(''target'', JNull)])
   \<and> get_target (JObj 1 [(''target'', JNull)]) = Inr JNull
   \<and> handleOpen (JObj 1 [(''target'', JNull)]) initial
       = Inr (setState \<lparr>State.anchorEl = JObj 1 [(''target'', JNull)]\<rparr> initial)"
  by (simp add: handleOpen_silent resolved_anchor_def)

text \<open>
  C3, amended: whenever \<open>open\<close> returns (the flag is set, or the anchor source is neither
  \<open>null\<close> nor \<open>undefined\<close>), the anchor stored is the source's \<open>target\<close> when the source and
  its \<open>target\<close> are both truthy, and the source itself otherwise.
\<close>

theorem open_resolves_anchor:
  "eventOrAnchorElWarned w \<or> \<not> nullish a \<Longrightarrow>
   \<exists>w'. handleOpen a w = Inr w' \<and> State.anchorEl (state w') = resolved_anchor a"
  by (rule handleOpen_returns)

text \<open>The amended C3 at a click event whose target is an element.\<close>

theorem open_resolves_anchor_witness:
  "\<not> nullish (JObj 1 [(''target'', JObj 2 [])])
   \<and> (\<exists>w'. handleOpen (JObj 1 [(''target'', JObj 2 [])]) initial = Inr w'
          \<and> State.anchorEl (state w') = JObj 2 [])"
  using open_resolves_anchor [of initial "JObj 1 [(''target'', JObj 2 [])]"]
  by (simp add: resolved_anchor_def)

text \<open>
  C4, as stated: with the flag unset, every falsy anchor source makes \<open>open\<close> throw, so the
  diagnostic branch is never reached. It fails at \<open>0\<close>: reading \<open>target\<close> on a number gives
  \<open>undefined\<close>, the message is logged, the flag is set and \<open>0\<close> is stored.
\<close>

theorem open_zero_warns_counterexample:
  "\<not> eventOrAnchorElWarned initial \<and> \<not> truthy (JNum 0)
   \<and> handleOpen (JNum 0) initial
       = Inr \<lparr>state = \<lparr>State.anchorEl = JNum 0\<rparr>, eventOrAnchorElWarned = True,
              console = [''eventOrAnchorEl should be defined'']\<rparr>"
  by (simp add: handleOpen_falsy_unwarned initial_def setState_def console_error_def)

text \<open>
  C4, amended: with the flag unset, \<open>open\<close> throws a TypeError exactly on \<open>null\<close> and
  \<open>undefined\<close>, before any update of the state or the flag; on any other falsy source
  (\<open>false\<close>, \<open>0\<close>, \<open>NaN\<close>, the empty string) it logs the diagnostic, sets the flag and
  stores the source; on a truthy source it stores the resolved anchor and leaves the flag
  unset.
\<close>

theorem open_unwarned_cases:
  "\<not> eventOrAnchorElWarned w \<Longrightarrow>
   (nullish a \<longrightarrow> handleOpen a w = Inl TypeError)
   \<and> (\<not> truthy a \<and> \<not> nullish a \<longrightarrow>
        handleOpen a w =
          Inr (setState \<lparr>State.anchorEl = a\<rparr>
                 (console_error ''eventOrAnchorEl should be defined''
                    (w\<lparr>eventOrAnchorElWarned := True\<rparr>))))
   \<and> (truthy a \<longrightarrow>
        handleOpen a w = Inr (setState \<lparr>State.anchorEl = resolved_anchor a\<rparr> w))"
  by (simp add: handleOpen_nullish_unwarned handleOpen_falsy_unwarned handleOpen_silent)

text \<open>The amended C4 at \<open>null\<close>, \<open>undefined\<close>, the empty string and an element.\<close>

theorem open_unwarned_cases_witness:
  "\<not> eventOrAnchorElWarned initial
   \<and> nullish JNull \<and> handleOpen JNull initial = Inl TypeError
   \<and> nullish JUndefined \<and> handleOpen JUndefined initial = Inl TypeError
   \<and> \<not> truthy (JStr []) \<and> \<not> nullish (JStr [])
   \<and> eventOrAnchorElWarned (run [Open (JStr [])] initial)
   \<and> truthy (JObj 1 [])
   \<and> \<not> eventOrAnchorElWarned (run [Open (JObj 1 [])] initial)"
  using open_unwarned_cases [of initial JNull] open_unwarned_cases [of initial JUndefined]
    open_unwarned_cases [of initial "JStr []"] open_unwarned_cases [of initial "JObj 1 []"]
  by (simp add: initial_def setState_def console_error_def)

section \<open>Toggling\<close>

text \<open>
  C5, as stated: \<open>toggle(a)\<close> from closed yields the open state for every \<open>a\<close>. It fails at
  \<open>false\<close>: the call returns, \<open>false\<close> is stored and \<open>isOpen\<close> stays false.
\<close>

theorem toggle_false_counterexample:
  "\<not> truthy (State.anchorEl (state initial))
   \<and> handleToggle (JBool False) initial
       = Inr \<lparr>state = \<lparr>State.anchorEl = JBool False\<rparr>, eventOrAnchorElWarned = True,
              console = [''eventOrAnchorEl should be defined'']\<rparr>
   \<and> \<not> isOpen (render \<lparr>popupId = JUndefined, children = (\<lambda>ip. ip), variant = Popover\<rparr>
                  \<lparr>state = \<lparr>State.anchorEl = JBool False\<rparr>, eventOrAnchorElWarned = True,
                   console = [''eventOrAnchorEl should be defined'']\<rparr>)"
  by (simp add: handleToggle_def handleOpen_falsy_unwarned initial_def setState_def
      console_error_def render_def Let_def)

text \<open>
  C5, amended: with a truthy \<open>state.anchorEl\<close>, \<open>toggle(a)\<close> is \<open>close()\<close> whatever \<open>a\<close> is;
  otherwise \<open>toggle(a)\<close> is \<open>open(a)\<close>, and when that returns the anchor stored is the one
  resolved from \<open>a\<close> and the popup is open exactly when \<open>a\<close> is truthy.
\<close>

theorem toggle_is_close_or_open:
  "(truthy (State.anchorEl (state w)) \<longrightarrow>
      handleToggle a w = handleClose w \<and> handleToggle b w = handleToggle a w)
   \<and> (\<not> truthy (State.anchorEl (state w)) \<longrightarrow> handleToggle a w = handleOpen a w)
   \<and> (\<not> truthy (State.anchorEl (state w)) \<and> (eventOrAnchorElWarned w \<or> \<not> nullish a) \<longrightarrow>
        (\<exists>w'. handleToggle a w = Inr w'
           \<and> State.anchorEl (state w') = resolved_anchor a
           \<and> isOpen (render \<lparr>popupId = pid, children = (\<lambda>ip. ip), variant = v\<rparr> w')
               = truthy a))"
proof -
  have "\<exists>w'. handleOpen a w = Inr w' \<and> State.anchorEl (state w') = resolved_anchor a
           \<and> isOpen (render \<lparr>popupId = pid, children = (\<lambda>ip. ip), variant = v\<rparr> w') = truthy a"
    if "eventOrAnchorElWarned w \<or> \<not> nullish a"
  proof -
    from handleOpen_returns [OF that] obtain w'
      where "handleOpen a w = Inr w'" and "State.anchorEl (state w') = resolved_anchor a"
      by blast
    then show ?thesis by (simp add: render_def truthy_resolved_anchor)
  qed
  then show ?thesis by (simp add: handleToggle_def)
qed

text \<open>The amended C5 at an open popup and at the initial state, toggled with an
  element.\<close>

theorem toggle_is_close_or_open_witness:
  "truthy (State.anchorEl (state (setState \<lparr>State.anchorEl = JObj 1 []\<rparr> initial)))
   \<and> handleToggle (JObj 2 []) (setState \<lparr>State.anchorEl = JObj 1 []\<rparr> initial) = Inr initial
   \<and> \<not> truthy (State.anchorEl (state initial)) \<and> \<not> nullish (JObj 2 [])
   \<and> handleToggle (JObj 2 []) initial = handleOpen (JObj 2 []) initial
   \<and> (\<exists>w'. handleToggle (JObj 2 []) initial = Inr w'
          \<and> State.anchorEl (state w') = resolved_anchor (JObj 2 [])
          \<and> isOpen (render \<lparr>popupId = JUndefined, children = (\<lambda>ip. ip), variant = Popover\<rparr> w')
              = truthy (JObj 2 []))
   \<and> resolved_anchor (JObj 2 []) = JObj 2 []"
proof -
  let ?w1 = "setState \<lparr>State.anchorEl = JObj 1 []\<rparr> initial"
  have h1: "truthy (State.anchorEl (state ?w1))"
    by (simp add: setState_def)
  have h2: "\<not> truthy (State.anchorEl (state initial))" "\<not> nullish (JObj 2 [])"
    by (simp_all add: initial_def)
  have c: "handleClose ?w1 = Inr initial"
    by (simp add: handleClose_def setState_def initial_def)
  have r: "resolved_anchor (JObj 2 []) = JObj 2 []"
    by (simp add: resolved_anchor_def)
  from toggle_is_close_or_open [of ?w1 "JObj 2 []" JNull JUndefined Popover] h1 c
  have "handleToggle (JObj 2 []) ?w1 = Inr initial"
    by simp
  with toggle_is_close_or_open [of initial "JObj 2 []" JNull JUndefined Popover] h1 h2 r
  show ?thesis
    by blast
qed

section \<open>Setting the open state\<close>

text \<open>
  C6. \<open>setOpen(flag, a)\<close> with a truthy flag is \<open>open(a)\<close>; with a falsy flag it is
  \<open>close()\<close>, whatever \<open>a\<close> is, and it returns with \<open>state.anchorEl\<close> \<open>null\<close> and
  \<open>isOpen\<close> false. In particular \<open>setOpen(false, a)\<close> always yields the closed state.
\<close>

theorem setOpen_is_open_or_close:
  "(truthy f \<longrightarrow> handleSetOpen f a w = handleOpen a w)
   \<and> (\<not> truthy f \<longrightarrow>
        handleSetOpen f a w = handleClose w
        \<and> handleSetOpen f b w = handleSetOpen f a w
        \<and> (\<exists>w'. handleSetOpen f a w = Inr w'
               \<and> State.anchorEl (state w') = JNull
               \<and> \<not> isOpen (render \<lparr>popupId = pid, children = (\<lambda>ip. ip), variant = v\<rparr> w')))
   \<and> (\<exists>w'. handleSetOpen (JBool False) a w = Inr w'
          \<and> State.anchorEl (state w') = JNull
          \<and> \<not> isOpen (render \<lparr>popupId = pid, children = (\<lambda>ip. ip), variant = v\<rparr> w'))"
  by (simp add: handleSetOpen_def handleClose_def setState_def render_def Let_def)

text \<open>C6 at \<open>setOpen(true, element)\<close> from the initial state and at
  \<open>setOpen(false, element)\<close> from an open popup.\<close>

theorem setOpen_is_open_or_close_witness:
  "truthy (JBool True)
   \<and> handleSetOpen (JBool True) (JObj 1 []) initial = handleOpen (JObj 1 []) initial
   \<and> \<not> truthy (JBool False)
   \<and> handleSetOpen (JBool False) (JObj 1 []) (setState \<lparr>State.anchorEl = JObj 2 []\<rparr> initial)
       = Inr initial"
  using setOpen_is_open_or_close [of "JBool True" "JObj 1 []" initial]
    setOpen_is_open_or_close
      [of "JBool False" "JObj 1 []" "setState \<lparr>State.anchorEl = JObj 2 []\<rparr> initial"]
  by (simp add: handleClose_def setState_def initial_def)

section \<open>Opening twice\<close>

text \<open>
  Where the second call returns, the last write wins: the anchor is the one resolved from
  the second source.
\<close>

lemma open_open_last_write_wins:
  assumes "eventOrAnchorElWarned w \<or> \<not> nullish b"
  shows "State.anchorEl (state (run [Open a, Open b] w)) = resolved_anchor b"
proof -
  have "State.anchorEl (state (run [Open b] w0)) = resolved_anchor b"
    if "eventOrAnchorElWarned w0 \<or> \<not> nullish b" for w0
    using handleOpen_returns [OF that] by auto
  moreover have "eventOrAnchorElWarned w' \<or> \<not> nullish b" if "handleOpen a w = Inr w'" for w'
    using assms that perform_flag_mono [of "Open a" w w'] by auto
  ultimately show ?thesis
    using assms by (cases "handleOpen a w") auto
qed

text \<open>
  C7. The claim: \<open>open(a)\<close> followed by \<open>open(b)\<close> leaves the anchor resolved from \<open>b\<close>, and
  opening an open popup raises no error. The code at \<open>a\<close> an element and \<open>b\<close>
  \<open>undefined\<close>, in a process that has not warned yet: the first call opens the popup on
  the element, the second throws a TypeError, and the anchor is still the element.
\<close>

theorem reopen_undefined_throws:
  "handleOpen (JObj 1 []) initial = Inr (setState \<lparr>State.anchorEl = JObj 1 []\<rparr> initial)
   \<and> truthy (State.anchorEl (state (setState \<lparr>State.anchorEl = JObj 1 []\<rparr> initial)))
   \<and> handleOpen JUndefined (setState \<lparr>State.anchorEl = JObj 1 []\<rparr> initial) = Inl TypeError
   \<and> State.anchorEl (state (run [Open (JObj 1 []), Open JUndefined] initial)) = JObj 1 []"
  by (simp add: handleOpen_silent handleOpen_nullish_unwarned resolved_anchor_def setState_def
      initial_def)

section \<open>The binding functions\<close>

text \<open>
  C8. In the outputs of \<open>bindTrigger\<close>, \<open>bindToggle\<close> and \<open>bindHover\<close>, the key
  \<open>aria-owns\<close> is present exactly for the variant \<open>popover\<close> and \<open>aria-describedby\<close> exactly
  for \<open>popper\<close>, so exactly one of the two is; the key that is present holds \<open>popupId\<close>
  when \<open>isOpen\<close> is true and \<open>null\<close> when it is false; and \<open>aria-haspopup\<close> is \<open>true\<close>.
\<close>

theorem trigger_aria_relation:
  "map_of (bindTrigger p) ''aria-owns''
     = (if InjectedProps.variant p = Popover
        then Some (Value (if isOpen p then InjectedProps.popupId p else JNull)) else None)
   \<and> map_of (bindTrigger p) ''aria-describedby''
     = (if InjectedProps.variant p = Popper
        then Some (Value (if isOpen p then InjectedProps.popupId p else JNull)) else None)
   \<and> (''aria-owns'' \<in> dom (map_of (bindTrigger p)))
       \<noteq> (''aria-describedby'' \<in> dom (map_of (bindTrigger p)))
   \<and> map_of (bindTrigger p) ''aria-haspopup'' = Some (Value (JBool True))
   \<and> map_of (bindToggle p) ''aria-owns''
     = (if InjectedProps.variant p = Popover
        then Some (Value (if isOpen p then InjectedProps.popupId p else JNull)) else None)
   \<and> map_of (bindToggle p) ''aria-describedby''
     = (if InjectedProps.variant p = Popper
        then Some (Value (if isOpen p then InjectedProps.popupId p else JNull)) else None)
   \<and> (''aria-owns'' \<in> dom (map_of (bindToggle p)))
       \<noteq> (''aria-describedby'' \<in> dom (map_of (bindToggle p)))
   \<and> map_of (bindToggle p) ''aria-haspopup'' = Some (Value (JBool True))
   \<and> map_of (bindHover p) ''aria-owns''
     = (if InjectedProps.variant p = Popover
        then Some (Value (if isOpen p then InjectedProps.popupId p else JNull)) else None)
   \<and> map_of (bindHover p) ''aria-describedby''
     = (if InjectedProps.variant p = Popper
        then Some (Value (if isOpen p then InjectedProps.popupId p else JNull)) else None)
   \<and> (''aria-owns'' \<in> dom (map_of (bindHover p)))
       \<noteq> (''aria-describedby'' \<in> dom (map_of (bindHover p)))
   \<and> map_of (bindHover p) ''aria-haspopup'' = Some (Value (JBool True))"
  by (cases "InjectedProps.variant p") (simp_all add: bindTrigger_def bindToggle_def bindHover_def)

text \<open>
  C9. \<open>bindMenu\<close> returns what \<open>bindPopover\<close> returns, and that object has exactly the
  keys \<open>id\<close>, \<open>anchorEl\<close>, \<open>open\<close> and \<open>onClose\<close>, holding \<open>popupId\<close>, \<open>anchorEl\<close>,
  \<open>isOpen\<close> and \<open>close\<close>.
\<close>

theorem bindMenu_is_bindPopover:
  "bindMenu p = bindPopover p
   \<and> map fst (bindPopover p) = [''id'', ''anchorEl'', ''open'', ''onClose'']
   \<and> map_of (bindPopover p) ''id'' = Some (Value (InjectedProps.popupId p))
   \<and> map_of (bindPopover p) ''anchorEl'' = Some (Value (anchorEl p))
   \<and> map_of (bindPopover p) ''open'' = Some (Value (JBool (isOpen p)))
   \<and> map_of (bindPopover p) ''onClose'' = Some (Thunk (close p))"
  by (simp add: bindMenu_def bindPopover_def)

section \<open>Closing\<close>

text \<open>
  C10, as stated: \<open>close()\<close> on a popup that is already closed changes no state. It fails
  after \<open>open(0)\<close> from the initial state: \<open>0\<close> is stored, so \<open>isOpen\<close> is false and the
  popup is closed, and \<open>close()\<close> changes \<open>anchorEl\<close> from \<open>0\<close> to \<open>null\<close>.
\<close>

theorem close_after_open_zero_counterexample:
  "run [Open (JNum 0)] initial
     = \<lparr>state = \<lparr>State.anchorEl = JNum 0\<rparr>, eventOrAnchorElWarned = True,
        console = [''eventOrAnchorEl should be defined'']\<rparr>
   \<and> \<not> isOpen (render \<lparr>popupId = JUndefined, children = (\<lambda>ip. ip), variant = Popover\<rparr>
                  (run [Open (JNum 0)] initial))
   \<and> handleClose (run [Open (JNum 0)] initial)
       = Inr \<lparr>state = \<lparr>State.anchorEl = JNull\<rparr>, eventOrAnchorElWarned = True,
              console = [''eventOrAnchorEl should be defined'']\<rparr>
   \<and> handleClose (run [Open (JNum 0)] initial) \<noteq> Inr (run [Open (JNum 0)] initial)"
  by (simp add: handleOpen_falsy_unwarned handleClose_def initial_def setState_def
      console_error_def render_def Let_def)

text \<open>
  C10, amended: from every state \<open>close()\<close> returns a state with \<open>anchorEl\<close> \<open>null\<close> and
  \<open>isOpen\<close> false, the flag and the console as they were, that a second \<open>close()\<close> leaves
  as it is, so two calls end where one does; and \<open>close()\<close> changes no state exactly when
  \<open>anchorEl\<close> is already \<open>null\<close>.
\<close>

theorem close_idempotent:
  "(\<exists>w1. handleClose w = Inr w1 \<and> handleClose w1 = Inr w1
         \<and> State.anchorEl (state w1) = JNull
         \<and> eventOrAnchorElWarned w1 = eventOrAnchorElWarned w \<and> console w1 = console w
         \<and> \<not> isOpen (render \<lparr>popupId = pid, children = (\<lambda>ip. ip), variant = v\<rparr> w1))
   \<and> run [Close, Close] w = run [Close] w
   \<and> (handleClose w = Inr w) = (State.anchorEl (state w) = JNull)"
proof -
  have "(w\<lparr>state := \<lparr>State.anchorEl = JNull\<rparr>\<rparr> = w) = (State.anchorEl (state w) = JNull)"
    by (cases w) auto
  then show ?thesis
    by (simp add: handleClose_def setState_def render_def Let_def)
qed

text \<open>The amended C10 at the initial state, where \<open>anchorEl\<close> is \<open>null\<close>, and at an open
  popup.\<close>

theorem close_idempotent_witness:
  "State.anchorEl (state initial) = JNull \<and> handleClose initial = Inr initial
   \<and> State.anchorEl (state (setState \<lparr>State.anchorEl = JObj 1 []\<rparr> initial)) \<noteq> JNull
   \<and> handleClose (setState \<lparr>State.anchorEl = JObj 1 []\<rparr> initial) = Inr initial
   \<and> run [Close, Close] (setState \<lparr>State.anchorEl = JObj 1 []\<rparr> initial) = initial"
  using close_idempotent [of initial]
    close_idempotent [of "setState \<lparr>State.anchorEl = JObj 1 []\<rparr> initial"]
  by (simp add: initial_def setState_def handleClose_def)

end
